theory Spec2Isabelle
  imports Main "HOL-Library.Word"
begin

section \<open>Strings\<close>

text \<open>
  A JavaScript string is a sequence of 16-bit code units, and \<open>.length\<close> counts code
  units.  String literals of the source are ASCII and are written with \<open>js\<close>.
\<close>

type_synonym jschar = "16 word"
type_synonym jsstring = "jschar list"

definition js :: "string \<Rightarrow> jsstring" where
  "js s = map of_char s"

text \<open>
  \<open>String.prototype.trim\<close> strips the code units that ECMAScript classes as WhiteSpace
  or LineTerminator from both ends.
\<close>

definition isWhiteSpace :: "jschar \<Rightarrow> bool" where
  "isWhiteSpace c =
     (c = 0x0009 \<or> c = 0x000A \<or> c = 0x000B \<or> c = 0x000C \<or> c = 0x000D \<or> c = 0x0020 \<or>
      c = 0x00A0 \<or> c = 0x1680 \<or> (0x2000 \<le> c \<and> c \<le> 0x200A) \<or> c = 0x2028 \<or>
      c = 0x2029 \<or> c = 0x202F \<or> c = 0x205F \<or> c = 0x3000 \<or> c = 0xFEFF)"

definition trim :: "jsstring \<Rightarrow> jsstring" where
  "trim s = rev (dropWhile isWhiteSpace (rev (dropWhile isWhiteSpace s)))"

text \<open>\<open>Array.prototype.join\<close>.\<close>

fun join :: "jsstring \<Rightarrow> jsstring list \<Rightarrow> jsstring" where
  "join sep [] = []"
| "join sep [x] = x"
| "join sep (x # y # ys) = x @ sep @ join sep (y # ys)"

section \<open>Data model (db/schema.ts, actions/todoAction.ts)\<close>

text \<open>A row of the \<open>todo\<close> table: \<open>id\<close> (uuid, primary key), \<open>text\<close>, \<open>done\<close>.\<close>

record todoType =
  todo_id :: jsstring
  todo_text :: jsstring
  todo_done :: bool

text \<open>
  \<open>ActionResponse<T>\<close>: \<open>{ success: true; data: T } | { success: false; error: string }\<close>.
\<close>

datatype 'a ActionResponse = Success 'a | Failure jsstring


section \<open>Validation schemas (actions/todoAction.ts)\<close>

text \<open>
  A schema maps its input to \<open>Inr\<close> of the parsed data or to \<open>Inl\<close> of the messages of
  its issues, in the order in which the checks are declared.  The format test behind
  \<open>z.string().uuid\<close> belongs to the validation library and is the parameter \<open>isUuid\<close>.
\<close>

type_synonym 'a safeParse = "jsstring list + 'a"

definition todoIdSchema :: "(jsstring \<Rightarrow> bool) \<Rightarrow> jsstring \<Rightarrow> jsstring safeParse" where
  "todoIdSchema isUuid v =
     (if isUuid v then Inr v else Inl [js ''Todo ID must be a valid UUID''])"

definition todoTextSchema :: "jsstring \<Rightarrow> jsstring safeParse" where
  "todoTextSchema v =
     (let t = trim v;
          issues =
            (if length t < 1 then [js ''Todo text cannot be empty''] else []) @
            (if 500 < length t then [js ''Todo text must be less than 500 characters''] else [])
      in if issues = [] then Inr t else Inl issues)"

fun issues_of :: "'a safeParse \<Rightarrow> jsstring list" where
  "issues_of (Inl issues) = issues"
| "issues_of (Inr d) = []"

definition addTodoSchema :: "jsstring \<Rightarrow> jsstring safeParse" where
  "addTodoSchema v = todoTextSchema v"

definition editTodoSchema ::
  "(jsstring \<Rightarrow> bool) \<Rightarrow> jsstring \<Rightarrow> jsstring \<Rightarrow> (jsstring \<times> jsstring) safeParse" where
  "editTodoSchema isUuid v_id v_text =
     (case (todoIdSchema isUuid v_id, todoTextSchema v_text) of
        (Inr i, Inr t) \<Rightarrow> Inr (i, t)
      | (r_id, r_text) \<Rightarrow> Inl (issues_of r_id @ issues_of r_text))"

definition todoIdOnlySchema :: "(jsstring \<Rightarrow> bool) \<Rightarrow> jsstring \<Rightarrow> jsstring safeParse" where
  "todoIdOnlySchema isUuid v_id = todoIdSchema isUuid v_id"

section \<open>The store (db/drizzle.ts, db/schema.ts)\<close>

text \<open>
  The statements the actions send to the table.  Every statement is recorded in
  \<open>db_log\<close> with its outcome (\<open>None\<close>: it completed, \<open>Some e\<close>: the driver threw \<open>e\<close>).
  What the database does on its own is an input of the model:
  \<^item> \<open>db_fault\<close>: whether the \<open>n\<close>-th statement is rejected, and with what error;
  \<^item> \<open>gen_random_uuid\<close>: the id the database generates while the \<open>n\<close>-th statement runs
    (\<open>defaultRandom()\<close>);
  \<^item> \<open>uuid_in\<close>: how the database reads a text as a value of the column type \<open>uuid\<close>:
    \<open>None\<close> when it rejects the text, otherwise the value, written in the spelling in
    which the database returns it.  Two ids are the same for \<open>eq(todo.id, i)\<close> and for
    the primary key when they read as the same value;
  \<^item> \<open>text_in\<close>: the text the column \<open>text\<close> holds, and returns, when it is given a
    string: \<open>None\<close> when the database rejects the string.
\<close>

datatype db_op =
    SelectAll
  | SelectWhereId jsstring
  | InsertReturning jsstring
  | UpdateSetText jsstring jsstring
  | UpdateSetDoneNot jsstring
  | DeleteWhereId jsstring

record world =
  todo_table :: "todoType list"
  db_log :: "(db_op \<times> jsstring option) list"
  db_fault :: "nat \<Rightarrow> jsstring option"
  gen_random_uuid :: "nat \<Rightarrow> jsstring"
  uuid_in :: "jsstring \<Rightarrow> jsstring option"
  text_in :: "jsstring \<Rightarrow> jsstring option"
  console :: "(jsstring \<times> jsstring) list"
  revalidated :: "jsstring list"

definition db_logged :: "db_op \<Rightarrow> jsstring option \<Rightarrow> world \<Rightarrow> world" where
  "db_logged op outcome w = w\<lparr>db_log := db_log w @ [(op, outcome)]\<rparr>"

definition db_next_fault :: "world \<Rightarrow> jsstring option" where
  "db_next_fault w = db_fault w (length (db_log w))"

text \<open>The errors of the database for a text it does not take as a uuid or as a text.\<close>

definition invalid_uuid :: jsstring where
  "invalid_uuid = js ''invalid input syntax for type uuid''"

definition invalid_text :: jsstring where
  "invalid_text = js ''invalid byte sequence for encoding UTF8''"

definition pkey_violation :: jsstring where
  "pkey_violation = js ''duplicate key value violates unique constraint todo_pkey''"

text \<open>\<open>eq(todo.id, i)\<close> for a row, where \<open>u\<close> is the value the database read \<open>i\<close> as.\<close>

definition id_is :: "world \<Rightarrow> jsstring \<Rightarrow> todoType \<Rightarrow> bool" where
  "id_is w u r = (uuid_in w (todo_id r) = Some u)"

text \<open>\<open>db.select().from(todo)\<close>\<close>

definition db_select :: "world \<Rightarrow> (jsstring + todoType list) \<times> world" where
  "db_select w =
     (case db_next_fault w of
        Some e \<Rightarrow> (Inl e, db_logged SelectAll (Some e) w)
      | None \<Rightarrow> (Inr (todo_table w), db_logged SelectAll None w))"

text \<open>\<open>db.select().from(todo).where(eq(todo.id, i)).limit(1)\<close>\<close>

definition db_select_where_id :: "jsstring \<Rightarrow> world \<Rightarrow> (jsstring + todoType list) \<times> world" where
  "db_select_where_id i w =
     (case db_next_fault w of
        Some e \<Rightarrow> (Inl e, db_logged (SelectWhereId i) (Some e) w)
      | None \<Rightarrow>
          (case uuid_in w i of
             None \<Rightarrow> (Inl invalid_uuid, db_logged (SelectWhereId i) (Some invalid_uuid) w)
           | Some u \<Rightarrow>
               (Inr (take 1 (filter (id_is w u) (todo_table w))),
                db_logged (SelectWhereId i) None w)))"

text \<open>
  \<open>db.insert(todo).values({ text: t }).returning()\<close>, destructured to its one row.
  \<open>id\<close> is the primary key, filled by the database; \<open>done\<close> defaults to false; the row
  holds the text as the column takes it.  A generated id that is already in the table
  violates the primary key.
\<close>

definition db_insert_returning :: "jsstring \<Rightarrow> world \<Rightarrow> (jsstring + todoType) \<times> world" where
  "db_insert_returning t w =
     (case db_next_fault w of
        Some e \<Rightarrow> (Inl e, db_logged (InsertReturning t) (Some e) w)
      | None \<Rightarrow>
          (case text_in w t of
             None \<Rightarrow> (Inl invalid_text, db_logged (InsertReturning t) (Some invalid_text) w)
           | Some stored \<Rightarrow>
               (let newTodo = \<lparr>todo_id = gen_random_uuid w (length (db_log w)),
                               todo_text = stored, todo_done = False\<rparr>
                in if uuid_in w (todo_id newTodo) \<in>
                        set (map (\<lambda>r. uuid_in w (todo_id r)) (todo_table w))
                   then (Inl pkey_violation,
                         db_logged (InsertReturning t) (Some pkey_violation) w)
                   else (Inr newTodo,
                         db_logged (InsertReturning t) None
                           (w\<lparr>todo_table := todo_table w @ [newTodo]\<rparr>)))))"

text \<open>\<open>db.update(todo).set({ text: t }).where(eq(todo.id, i))\<close>\<close>

definition db_update_set_text :: "jsstring \<Rightarrow> jsstring \<Rightarrow> world \<Rightarrow> (jsstring + unit) \<times> world" where
  "db_update_set_text i t w =
     (case db_next_fault w of
        Some e \<Rightarrow> (Inl e, db_logged (UpdateSetText i t) (Some e) w)
      | None \<Rightarrow>
          (case uuid_in w i of
             None \<Rightarrow> (Inl invalid_uuid, db_logged (UpdateSetText i t) (Some invalid_uuid) w)
           | Some u \<Rightarrow>
               (case text_in w t of
                  None \<Rightarrow>
                    (Inl invalid_text, db_logged (UpdateSetText i t) (Some invalid_text) w)
                | Some stored \<Rightarrow>
                    (Inr (),
                     db_logged (UpdateSetText i t) None
                       (w\<lparr>todo_table :=
                            map (\<lambda>r. if id_is w u r then r\<lparr>todo_text := stored\<rparr> else r)
                              (todo_table w)\<rparr>)))))"

text \<open>\<open>db.update(todo).set({ done: not(todo.done) }).where(eq(todo.id, i))\<close>\<close>

definition db_update_set_done_not :: "jsstring \<Rightarrow> world \<Rightarrow> (jsstring + unit) \<times> world" where
  "db_update_set_done_not i w =
     (case db_next_fault w of
        Some e \<Rightarrow> (Inl e, db_logged (UpdateSetDoneNot i) (Some e) w)
      | None \<Rightarrow>
          (case uuid_in w i of
             None \<Rightarrow> (Inl invalid_uuid, db_logged (UpdateSetDoneNot i) (Some invalid_uuid) w)
           | Some u \<Rightarrow>
               (Inr (),
                db_logged (UpdateSetDoneNot i) None
                  (w\<lparr>todo_table :=
                       map (\<lambda>r. if id_is w u r then r\<lparr>todo_done := \<not> todo_done r\<rparr> else r)
                         (todo_table w)\<rparr>))))"

text \<open>\<open>db.delete(todo).where(eq(todo.id, i))\<close>\<close>

definition db_delete_where_id :: "jsstring \<Rightarrow> world \<Rightarrow> (jsstring + unit) \<times> world" where
  "db_delete_where_id i w =
     (case db_next_fault w of
        Some e \<Rightarrow> (Inl e, db_logged (DeleteWhereId i) (Some e) w)
      | None \<Rightarrow>
          (case uuid_in w i of
             None \<Rightarrow> (Inl invalid_uuid, db_logged (DeleteWhereId i) (Some invalid_uuid) w)
           | Some u \<Rightarrow>
               (Inr (),
                db_logged (DeleteWhereId i) None
                  (w\<lparr>todo_table := filter (\<lambda>r. \<not> id_is w u r) (todo_table w)\<rparr>))))"

text \<open>The errors the store threw between two worlds, oldest first.\<close>

definition store_errors :: "world \<Rightarrow> world \<Rightarrow> jsstring list" where
  "store_errors w w' = List.map_filter snd (drop (length (db_log w)) (db_log w'))"

definition console_error :: "jsstring \<Rightarrow> jsstring \<Rightarrow> world \<Rightarrow> world" where
  "console_error label e w = w\<lparr>console := console w @ [(label, e)]\<rparr>"

definition revalidatePath :: "jsstring \<Rightarrow> world \<Rightarrow> world" where
  "revalidatePath p w = w\<lparr>revalidated := revalidated w @ [p]\<rparr>"

section \<open>Server actions (actions/todoAction.ts)\<close>

text \<open>
  Each action is a \<open>try\<close> block and its \<open>catch\<close>.  \<open>f_try\<close> is the \<open>try\<close> block: \<open>Inr\<close>
  of what it returns, or \<open>Inl\<close> of the error thrown inside it; \<open>f\<close> adds the \<open>catch\<close>.
\<close>

definition getData_try :: "world \<Rightarrow> (jsstring + todoType list ActionResponse) \<times> world" where
  "getData_try w =
     (case db_select w of
        (Inl error, w1) \<Rightarrow> (Inl error, w1)
      | (Inr data, w1) \<Rightarrow> (Inr (Success data), w1))"

definition getData :: "world \<Rightarrow> todoType list ActionResponse \<times> world" where
  "getData w =
     (case getData_try w of
        (Inr response, w1) \<Rightarrow> (response, w1)
      | (Inl error, w1) \<Rightarrow>
          (Failure (js ''Unable to load todos. Please try again later.''),
           console_error (js ''Error fetching todos:'') error w1))"

definition addTodo_try :: "jsstring \<Rightarrow> world \<Rightarrow> (jsstring + todoType ActionResponse) \<times> world" where
  "addTodo_try v_text w =
     (case addTodoSchema v_text of
        Inl issues \<Rightarrow> (Inr (Failure (join (js '', '') issues)), w)
      | Inr validText \<Rightarrow>
          (case db_insert_returning validText w of
             (Inl error, w1) \<Rightarrow> (Inl error, w1)
           | (Inr newTodo, w1) \<Rightarrow> (Inr (Success newTodo), revalidatePath (js ''/'') w1)))"

definition addTodo :: "jsstring \<Rightarrow> world \<Rightarrow> todoType ActionResponse \<times> world" where
  "addTodo v_text w =
     (case addTodo_try v_text w of
        (Inr response, w1) \<Rightarrow> (response, w1)
      | (Inl error, w1) \<Rightarrow>
          (Failure (js ''Unable to create todo. Please try again.''),
           console_error (js ''Error adding todo:'') error w1))"

definition deleteTodo_try ::
  "(jsstring \<Rightarrow> bool) \<Rightarrow> jsstring \<Rightarrow> world \<Rightarrow> (jsstring + unit ActionResponse) \<times> world" where
  "deleteTodo_try isUuid v_id w =
     (case todoIdOnlySchema isUuid v_id of
        Inl issues \<Rightarrow> (Inr (Failure (join (js '', '') issues)), w)
      | Inr validId \<Rightarrow>
          (case db_select_where_id validId w of
             (Inl error, w1) \<Rightarrow> (Inl error, w1)
           | (Inr existing, w1) \<Rightarrow>
               if length existing = 0 then (Inr (Failure (js ''Todo not found.'')), w1)
               else (case db_delete_where_id validId w1 of
                       (Inl error, w2) \<Rightarrow> (Inl error, w2)
                     | (Inr u, w2) \<Rightarrow> (Inr (Success ()), revalidatePath (js ''/'') w2))))"

definition deleteTodo ::
  "(jsstring \<Rightarrow> bool) \<Rightarrow> jsstring \<Rightarrow> world \<Rightarrow> unit ActionResponse \<times> world" where
  "deleteTodo isUuid v_id w =
     (case deleteTodo_try isUuid v_id w of
        (Inr response, w1) \<Rightarrow> (response, w1)
      | (Inl error, w1) \<Rightarrow>
          (Failure (js ''Unable to delete todo. Please try again.''),
           console_error (js ''Error deleting todo:'') error w1))"

definition toggleTodo_try ::
  "(jsstring \<Rightarrow> bool) \<Rightarrow> jsstring \<Rightarrow> world \<Rightarrow> (jsstring + unit ActionResponse) \<times> world" where
  "toggleTodo_try isUuid v_id w =
     (case todoIdOnlySchema isUuid v_id of
        Inl issues \<Rightarrow> (Inr (Failure (join (js '', '') issues)), w)
      | Inr validId \<Rightarrow>
          (case db_select_where_id validId w of
             (Inl error, w1) \<Rightarrow> (Inl error, w1)
           | (Inr existing, w1) \<Rightarrow>
               if length existing = 0 then (Inr (Failure (js ''Todo not found.'')), w1)
               else (case db_update_set_done_not validId w1 of
                       (Inl error, w2) \<Rightarrow> (Inl error, w2)
                     | (Inr u, w2) \<Rightarrow> (Inr (Success ()), revalidatePath (js ''/'') w2))))"

definition toggleTodo ::
  "(jsstring \<Rightarrow> bool) \<Rightarrow> jsstring \<Rightarrow> world \<Rightarrow> unit ActionResponse \<times> world" where
  "toggleTodo isUuid v_id w =
     (case toggleTodo_try isUuid v_id w of
        (Inr response, w1) \<Rightarrow> (response, w1)
      | (Inl error, w1) \<Rightarrow>
          (Failure (js ''Unable to update todo. Please try again.''),
           console_error (js ''Error toggling todo:'') error w1))"

definition editTodo_try ::
  "(jsstring \<Rightarrow> bool) \<Rightarrow> jsstring \<Rightarrow> jsstring \<Rightarrow> world \<Rightarrow>
   (jsstring + unit ActionResponse) \<times> world" where
  "editTodo_try isUuid v_id v_text w =
     (case editTodoSchema isUuid v_id v_text of
        Inl issues \<Rightarrow> (Inr (Failure (join (js '', '') issues)), w)
      | Inr (validId, validText) \<Rightarrow>
          (case db_select_where_id validId w of
             (Inl error, w1) \<Rightarrow> (Inl error, w1)
           | (Inr existing, w1) \<Rightarrow>
               if length existing = 0 then (Inr (Failure (js ''Todo not found.'')), w1)
               else (case db_update_set_text validId validText w1 of
                       (Inl error, w2) \<Rightarrow> (Inl error, w2)
                     | (Inr u, w2) \<Rightarrow> (Inr (Success ()), revalidatePath (js ''/'') w2))))"

definition editTodo ::
  "(jsstring \<Rightarrow> bool) \<Rightarrow> jsstring \<Rightarrow> jsstring \<Rightarrow> world \<Rightarrow> unit ActionResponse \<times> world" where
  "editTodo isUuid v_id v_text w =
     (case editTodo_try isUuid v_id v_text w of
        (Inr response, w1) \<Rightarrow> (response, w1)
      | (Inl error, w1) \<Rightarrow>
          (Failure (js ''Unable to update todo. Please try again.''),
           console_error (js ''Error editing todo:'') error w1))"

section \<open>Optimistic state controller (the \<open>useTodos\<close> hook)\<close>

text \<open>
  The state of the hook is the collection React holds, \<open>todos c\<close>.  \<open>setTodos_calls\<close>
  keeps the value the collection took at every \<open>setTodos\<close>, oldest first, and
  \<open>onError_calls\<close> the messages handed to the \<open>onError\<close> callback.

  Every render of the hook hands out new functions, which close over the \<open>todos\<close> of
  that render: the argument \<open>closure_todos\<close>.  The rollback snapshot \<open>[...todos]\<close> is
  taken from the closure, while the functional updates \<open>setTodos((prev) => ...)\<close> work
  on the collection React holds when they run.  A function taken from the latest
  render has \<open>closure_todos = todos c\<close>; one kept from an earlier render does not.
\<close>

record controller =
  todos :: "todoType list"
  setTodos_calls :: "todoType list list"
  onError_calls :: "jsstring list"

definition setTodos :: "(todoType list \<Rightarrow> todoType list) \<Rightarrow> controller \<Rightarrow> controller" where
  "setTodos f c = c\<lparr>todos := f (todos c), setTodos_calls := setTodos_calls c @ [f (todos c)]\<rparr>"

definition onError :: "jsstring \<Rightarrow> controller \<Rightarrow> controller" where
  "onError e c = c\<lparr>onError_calls := onError_calls c @ [e]\<rparr>"

definition createTodo :: "jsstring \<Rightarrow> controller \<times> world \<Rightarrow> controller \<times> world" where
  "createTodo v_text s =
     (case s of (c, w) \<Rightarrow>
        (case addTodo v_text w of
           (Success data, w1) \<Rightarrow> (setTodos (\<lambda>prev. prev @ [data]) c, w1)
         | (Failure error, w1) \<Rightarrow> (onError error c, w1)))"


definition toggleIsTodoDone ::
  "(jsstring \<Rightarrow> bool) \<Rightarrow> todoType list \<Rightarrow> jsstring \<Rightarrow>
   controller \<times> world \<Rightarrow> controller \<times> world" where
  "toggleIsTodoDone isUuid closure_todos v_id s =
     (case s of (c, w) \<Rightarrow>
        (let originalTodos = closure_todos;
             c1 = setTodos
                    (map (\<lambda>todo. if todo_id todo = v_id
                                  then todo\<lparr>todo_done := \<not> todo_done todo\<rparr> else todo)) c
         in case toggleTodo isUuid v_id w of
              (Success u, w1) \<Rightarrow> (c1, w1)
            | (Failure error, w1) \<Rightarrow> (onError error (setTodos (\<lambda>prev. originalTodos) c1), w1)))"


section \<open>The generic hook \<open>useOptimisticUpdate\<close>\<close>


record 'a optimistic =
  data :: 'a
  has_onError :: bool
  reported :: "jsstring list"


section \<open>Error display (the \<open>useError\<close> hook, \<open>showError\<close> of components/todos.tsx)\<close>

text \<open>
  Time is a clock in milliseconds.  \<open>setTimeout(f, d)\<close> adds a timer due at
  \<open>clock + d\<close>; when time passes, every timer that has fallen due runs its callback
  \<open>setError(null)\<close> and is gone.
\<close>

record useError =
  error :: "jsstring option"
  timers :: "nat list"
  clock :: nat

definition useError_init :: useError where
  "useError_init = \<lparr>error = None, timers = [], clock = 0\<rparr>"

definition showError :: "nat \<Rightarrow> jsstring \<Rightarrow> useError \<Rightarrow> useError" where
  "showError dismissAfter message u =
     u\<lparr>error := Some message, timers := timers u @ [clock u + dismissAfter]\<rparr>"

definition clearError :: "useError \<Rightarrow> useError" where
  "clearError u = u\<lparr>error := None\<rparr>"

definition elapse :: "nat \<Rightarrow> useError \<Rightarrow> useError" where
  "elapse d u =
     (let t = clock u + d;
          due = filter (\<lambda>x. x \<le> t) (timers u)
      in u\<lparr>error := (if due = [] then error u else None),
           timers := filter (\<lambda>x. \<not> x \<le> t) (timers u),
           clock := t\<rparr>)"

section \<open>The AddTodo component (components/addTodo.tsx)\<close>

text \<open>
  The state of the component is \<open>input\<close> and \<open>isLoading\<close>.  \<open>createTodo_calls\<close> keeps the
  argument of every invocation of the \<open>createTodo\<close> prop and \<open>in_flight\<close> counts the
  invocations whose promise has not settled.

  A render is the state as React rendered it.  The handlers and the attributes of a
  render read \<open>input\<close> and \<open>isLoading\<close> from that render (the argument \<open>r\<close>); the setters
  work on the state React holds (the argument \<open>a\<close>).  \<open>handleAdd\<close> is the handler up to
  its \<open>await\<close>; \<open>handleAdd_settled\<close> is its continuation, run when the promise resolves
  (\<open>True\<close>) or rejects (\<open>False\<close>).
\<close>

record AddTodo =
  input :: jsstring
  isLoading :: bool
  createTodo_calls :: "jsstring list"
  in_flight :: nat

definition AddTodo_init :: AddTodo where
  "AddTodo_init = \<lparr>input = [], isLoading = False, createTodo_calls = [], in_flight = 0\<rparr>"

definition handleInput :: "jsstring \<Rightarrow> AddTodo \<Rightarrow> AddTodo" where
  "handleInput v a = a\<lparr>input := v\<rparr>"

definition handleAdd :: "AddTodo \<Rightarrow> AddTodo \<Rightarrow> AddTodo" where
  "handleAdd r a =
     (if isLoading r \<or> trim (input r) = [] then a
      else a\<lparr>isLoading := True,
             createTodo_calls := createTodo_calls a @ [input r],
             in_flight := Suc (in_flight a)\<rparr>)"

definition handleAdd_settled :: "bool \<Rightarrow> AddTodo \<Rightarrow> AddTodo" where
  "handleAdd_settled resolved a =
     (let a1 = (if resolved then a\<lparr>input := []\<rparr> else a)
      in a1\<lparr>isLoading := False, in_flight := in_flight a1 - 1\<rparr>)"

definition handleKeyPress :: "jsstring \<Rightarrow> AddTodo \<Rightarrow> AddTodo \<Rightarrow> AddTodo" where
  "handleKeyPress key r a =
     (if key = js ''Enter'' \<and> \<not> isLoading r \<and> trim (input r) \<noteq> [] then handleAdd r a else a)"

definition add_button_disabled :: "AddTodo \<Rightarrow> bool" where
  "add_button_disabled r = (isLoading r \<or> trim (input r) = [])"

text \<open>
  What can happen to a mounted component.  A run keeps the state and the render whose
  handlers the next event reaches; \<open>Rerender\<close> is React rendering the state it holds.
  Two events with no \<open>Rerender\<close> between them are handled by the same render.
\<close>

datatype AddTodo_event = Typed jsstring | ClickAdd | KeyPress jsstring | Settled bool | Rerender

fun AddTodo_step :: "AddTodo \<times> AddTodo \<Rightarrow> AddTodo_event \<Rightarrow> AddTodo \<times> AddTodo" where
  "AddTodo_step (a, r) (Typed v) = (handleInput v a, r)"
| "AddTodo_step (a, r) ClickAdd = (handleAdd r a, r)"
| "AddTodo_step (a, r) (KeyPress k) = (handleKeyPress k r a, r)"
| "AddTodo_step (a, r) (Settled resolved) =
     (if in_flight a = 0 then a else handleAdd_settled resolved a, r)"
| "AddTodo_step (a, r) Rerender = (a, a)"

definition AddTodo_run :: "AddTodo_event list \<Rightarrow> AddTodo \<times> AddTodo" where
  "AddTodo_run es = foldl AddTodo_step (AddTodo_init, AddTodo_init) es"

text \<open>The run of a list of events in which React renders before each of them.\<close>

definition rerendered :: "AddTodo_event list \<Rightarrow> AddTodo_event list" where
  "rerendered es = concat (map (\<lambda>ev. [Rerender, ev]) es)"

section \<open>Example data\<close>

text \<open>
  A concrete identifier format to run the actions with: five groups of hexadecimal
  digits, 8-4-4-4-12, separated by hyphens.
\<close>

definition isHexDigit :: "jschar \<Rightarrow> bool" where
  "isHexDigit c =
     ((0x30 \<le> c \<and> c \<le> 0x39) \<or> (0x41 \<le> c \<and> c \<le> 0x46) \<or> (0x61 \<le> c \<and> c \<le> 0x66))"

definition uuid_format :: "jsstring \<Rightarrow> bool" where
  "uuid_format s =
     (map (\<lambda>c. if isHexDigit c then 0x30 else c) s = js ''00000000-0000-0000-0000-000000000000'')"

text \<open>
  A store to run the actions on.  It reads a text of that format as a uuid whatever the
  case of its digits, and returns uuids in lower case.  Its text column holds well-formed
  text: a string with a NUL is rejected, and a surrogate without its partner comes back
  as U+FFFD.
\<close>

definition lower_hex :: "jschar \<Rightarrow> jschar" where
  "lower_hex c = (if 0x41 \<le> c \<and> c \<le> 0x46 then c + 0x20 else c)"

definition example_uuid_in :: "jsstring \<Rightarrow> jsstring option" where
  "example_uuid_in s = (if uuid_format s then Some (map lower_hex s) else None)"

definition isHighSurrogate :: "jschar \<Rightarrow> bool" where
  "isHighSurrogate c = (0xD800 \<le> c \<and> c \<le> 0xDBFF)"

definition isLowSurrogate :: "jschar \<Rightarrow> bool" where
  "isLowSurrogate c = (0xDC00 \<le> c \<and> c \<le> 0xDFFF)"

fun toWellFormed :: "jsstring \<Rightarrow> jsstring" where
  "toWellFormed [] = []"
| "toWellFormed [c] = (if isHighSurrogate c \<or> isLowSurrogate c then [0xFFFD] else [c])"
| "toWellFormed (c # d # s) =
     (if isHighSurrogate c \<and> isLowSurrogate d then c # d # toWellFormed s
      else if isHighSurrogate c \<or> isLowSurrogate c then 0xFFFD # toWellFormed (d # s)
      else c # toWellFormed (d # s))"

definition example_text_in :: "jsstring \<Rightarrow> jsstring option" where
  "example_text_in t = (if 0 \<in> set t then None else Some (toWellFormed t))"

definition milk_id :: jsstring where
  "milk_id = js ''123e4567-e89b-42d3-a456-426614174000''"

definition milk_id_upper :: jsstring where
  "milk_id_upper = js ''123E4567-E89B-42D3-A456-426614174000''"

definition eggs_id :: jsstring where
  "eggs_id = js ''9b2d1c3e-5f6a-4b7c-8d9e-0a1b2c3d4e5f''"

definition milk :: todoType where
  "milk = \<lparr>todo_id = milk_id, todo_text = js ''Buy milk'', todo_done = False\<rparr>"

text \<open>An empty table on a store that accepts every statement and generates \<open>milk_id\<close>.\<close>

definition empty_world :: world where
  "empty_world =
     \<lparr>todo_table = [], db_log = [], db_fault = (\<lambda>n. None),
      gen_random_uuid = (\<lambda>n. milk_id), uuid_in = example_uuid_in,
      text_in = example_text_in, console = [], revalidated = []\<rparr>"

text \<open>The table holding \<open>milk\<close>, on a store that generates \<open>eggs_id\<close>.\<close>

definition milk_world :: world where
  "milk_world = empty_world\<lparr>todo_table := [milk], gen_random_uuid := (\<lambda>n. eggs_id)\<rparr>"

text \<open>The same table on a store that rejects every statement.\<close>

definition broken_world :: world where
  "broken_world = milk_world\<lparr>db_fault := (\<lambda>n. Some (js ''connection refused''))\<rparr>"

text \<open>The same table on a store that rejects the second statement it receives.\<close>

definition flaky_world :: world where
  "flaky_world =
     milk_world\<lparr>db_fault := (\<lambda>n. if n = 1 then Some (js ''connection reset'') else None)\<rparr>"

definition milk_controller :: controller where
  "milk_controller = \<lparr>todos = [milk], setTodos_calls = [], onError_calls = []\<rparr>"


text \<open>The row the store of \<open>milk_world\<close> inserts for the text \<open>Buy eggs\<close>.\<close>

definition eggs :: todoType where
  "eggs = \<lparr>todo_id = eggs_id, todo_text = js ''Buy eggs'', todo_done = False\<rparr>"


text \<open>
  A form holding only blanks; a session of the form in which the user clicks and presses
  Enter on blanks, types a text, and then clicks twice and presses Enter, React
  rendering before each event; two clicks that reach the same render; and an error
  display that gets a second report three seconds after the first.
\<close>

definition blank_form :: AddTodo where
  "blank_form = AddTodo_init\<lparr>input := js ''   ''\<rparr>"

definition example_events :: "AddTodo_event list" where
  "example_events =
     [Typed (js ''   ''), ClickAdd, KeyPress (js ''Enter''), Typed (js ''Buy milk''),
      ClickAdd, ClickAdd, KeyPress (js ''Enter'')]"

definition example_run :: "AddTodo_event list" where
  "example_run = rerendered example_events"

definition double_click :: "AddTodo_event list" where
  "double_click = [Typed (js ''Buy milk''), Rerender, ClickAdd, ClickAdd]"

definition two_reports :: useError where
  "two_reports =
     showError 5000 (js ''second'') (elapse 3000 (showError 5000 (js ''first'') useError_init))"

section \<open>Theorems\<close>

lemmas db_defs = db_select_def db_select_where_id_def db_insert_returning_def
  db_update_set_text_def db_update_set_done_not_def db_delete_where_id_def
  db_logged_def db_next_fault_def id_is_def console_error_def revalidatePath_def

lemmas schema_defs = addTodoSchema_def editTodoSchema_def todoIdOnlySchema_def
  todoIdSchema_def todoTextSchema_def trim_def isWhiteSpace_def

lemmas action_defs = getData_def getData_try_def addTodo_def addTodo_try_def
  deleteTodo_def deleteTodo_try_def toggleTodo_def toggleTodo_try_def
  editTodo_def editTodo_try_def


lemmas example_defs = milk_id_def eggs_id_def milk_def empty_world_def milk_world_def
  broken_world_def flaky_world_def milk_controller_def js_def uuid_format_def isHexDigit_def
  example_uuid_in_def lower_hex_def example_text_in_def isHighSurrogate_def isLowSurrogate_def

lemma min_Suc0_eq0 [simp]: "(min n (Suc 0) = 0) = (n = 0)"
  by (cases n) auto

subsection \<open>Trimming and text validation\<close>

lemma dropWhile_rev_fix:
  "dropWhile P xs = xs \<Longrightarrow>
   dropWhile P (rev (dropWhile P (rev xs))) = rev (dropWhile P (rev xs))"
proof (cases xs)
  case Nil
  then show ?thesis by simp
next
  case (Cons x t)
  assume unchanged: "dropWhile P xs = xs"
  have "dropWhile P t \<noteq> x # t"
    using length_dropWhile_le [of P t] by (auto dest: arg_cong [where f = length])
  with Cons unchanged have "\<not> P x" by (auto split: if_splits)
  then show ?thesis using Cons by (simp add: dropWhile_append)
qed

lemma trim_idem: "trim (trim s) = trim s"
proof -
  have "dropWhile isWhiteSpace (trim s) = trim s"
    unfolding trim_def by (rule dropWhile_rev_fix) simp
  then show ?thesis by (simp add: trim_def)
qed

lemma todoTextSchema_eq:
  "todoTextSchema v =
     (if trim v = [] then Inl [js ''Todo text cannot be empty'']
      else if 500 < length (trim v)
           then Inl [js ''Todo text must be less than 500 characters'']
           else Inr (trim v))"
  by (auto simp: todoTextSchema_def Let_def)

text \<open>The bound is inclusive: 500 code units pass, 501 do not.\<close>

lemma trim_replicate:
  "\<not> isWhiteSpace c \<Longrightarrow> trim (replicate n c) = replicate n c"
  by (cases n) (simp_all add: trim_def replicate_append_same [symmetric] del: replicate_Suc)

lemma todoTextSchema_500:
  "todoTextSchema (replicate 500 (of_char CHR ''a'')) = Inr (replicate 500 (of_char CHR ''a''))"
  by (subst todoTextSchema_eq) (simp add: trim_replicate isWhiteSpace_def)

lemma todoTextSchema_501:
  "todoTextSchema (replicate 501 (of_char CHR ''a'')) =
   Inl [js ''Todo text must be less than 500 characters'']"
  by (subst todoTextSchema_eq) (simp add: trim_replicate isWhiteSpace_def)

text \<open>
  C2.  Text validation (\<open>todoTextSchema\<close>, the schema of the \<open>text\<close> field of \<open>addTodo\<close>
  and \<open>editTodo\<close>) fails exactly when the trimmed input is empty or longer than
  500 code units; when it accepts, it yields the trimmed input, and validating that
  result again yields it unchanged; an already trimmed, non-empty string of at most 500
  code units is accepted as it is.
\<close>

theorem C2_todoTextSchema:
  "(isl (todoTextSchema v) \<longleftrightarrow> trim v = [] \<or> 500 < length (trim v)) \<and>
   (\<forall>t. todoTextSchema v = Inr t \<longrightarrow> t = trim v \<and> todoTextSchema t = Inr t) \<and>
   (trim u = u \<and> u \<noteq> [] \<and> length u \<le> 500 \<longrightarrow> todoTextSchema u = Inr u)"
proof (intro conjI allI impI)
  show "isl (todoTextSchema v) \<longleftrightarrow> trim v = [] \<or> 500 < length (trim v)"
    by (simp add: todoTextSchema_eq)
next
  fix t assume ok: "todoTextSchema v = Inr t"
  then show "t = trim v" by (simp add: todoTextSchema_eq split: if_splits)
  with ok show "todoTextSchema t = Inr t"
    by (simp add: todoTextSchema_eq trim_idem split: if_splits)
next
  assume "trim u = u \<and> u \<noteq> [] \<and> length u \<le> 500"
  then show "todoTextSchema u = Inr u" by (simp add: todoTextSchema_eq)
qed

theorem C2_todoTextSchema_witness:
  "todoTextSchema (js ''  Buy milk  '') = Inr (js ''Buy milk'') \<and>
   todoTextSchema (js ''Buy milk'') = Inr (js ''Buy milk'') \<and>
   trim (js ''Buy milk'') = js ''Buy milk'' \<and>
   isl (todoTextSchema (js '' '')) \<and> trim (js '' '') = []"
proof -
  have valid: "todoTextSchema (js ''  Buy milk  '') = Inr (js ''Buy milk'')"
    by (simp add: schema_defs js_def)
  have trimmed: "trim (js ''Buy milk'') = js ''Buy milk''"
    by (simp add: schema_defs js_def)
  have blank: "trim (js '' '') = []"
    by (simp add: schema_defs js_def)
  from C2_todoTextSchema [of "js ''  Buy milk  ''" "js ''Buy milk''"] valid trimmed
  have "todoTextSchema (js ''Buy milk'') = Inr (js ''Buy milk'')" by blast
  moreover from C2_todoTextSchema [of "js '' ''" "js ''Buy milk''"] blank
  have "isl (todoTextSchema (js '' ''))" by blast
  ultimately show ?thesis using valid trimmed blank by simp
qed

subsection \<open>Rollback of the optimistic controller\<close>








subsection \<open>Validation failures\<close>

lemma addTodo_invalid:
  "addTodoSchema t = Inl issues \<Longrightarrow> addTodo t w = (Failure (join (js '', '') issues), w)"
  by (simp add: addTodo_def addTodo_try_def)

lemma editTodo_invalid:
  "editTodoSchema isUuid i t = Inl issues \<Longrightarrow>
   editTodo isUuid i t w = (Failure (join (js '', '') issues), w)"
  by (simp add: editTodo_def editTodo_try_def)

lemma toggleTodo_invalid:
  "todoIdOnlySchema isUuid i = Inl issues \<Longrightarrow>
   toggleTodo isUuid i w = (Failure (join (js '', '') issues), w)"
  by (simp add: toggleTodo_def toggleTodo_try_def)

lemma deleteTodo_invalid:
  "todoIdOnlySchema isUuid i = Inl issues \<Longrightarrow>
   deleteTodo isUuid i w = (Failure (join (js '', '') issues), w)"
  by (simp add: deleteTodo_def deleteTodo_try_def)

text \<open>
  C6.  When validation fails, each of \<open>addTodo\<close>, \<open>editTodo\<close>, \<open>toggleTodo\<close> and
  \<open>deleteTodo\<close> returns a failure whose message is the validation messages joined by
  a comma and a space, and the world after the call is the world before it: no
  statement has been sent to the store (\<open>db_log\<close> is unchanged), the table is untouched
  and nothing has been logged.
\<close>

theorem C6_validation_failure:
  "(addTodoSchema t = Inl issues_a \<longrightarrow>
      addTodo t w = (Failure (join (js '', '') issues_a), w)) \<and>
   (editTodoSchema isUuid i t = Inl issues_e \<longrightarrow>
      editTodo isUuid i t w = (Failure (join (js '', '') issues_e), w)) \<and>
   (todoIdOnlySchema isUuid i = Inl issues_i \<longrightarrow>
      toggleTodo isUuid i w = (Failure (join (js '', '') issues_i), w) \<and>
      deleteTodo isUuid i w = (Failure (join (js '', '') issues_i), w))"
  by (simp add: addTodo_invalid editTodo_invalid toggleTodo_invalid deleteTodo_invalid)

theorem C6_validation_failure_witness:
  "addTodoSchema (js ''   '') = Inl [js ''Todo text cannot be empty''] \<and>
   addTodo (js ''   '') milk_world = (Failure (js ''Todo text cannot be empty''), milk_world) \<and>
   editTodoSchema uuid_format (js ''42'') (js ''   '') =
     Inl [js ''Todo ID must be a valid UUID'', js ''Todo text cannot be empty''] \<and>
   editTodo uuid_format (js ''42'') (js ''   '') milk_world =
     (Failure (js ''Todo ID must be a valid UUID, Todo text cannot be empty''), milk_world) \<and>
   todoIdOnlySchema uuid_format (js ''42'') = Inl [js ''Todo ID must be a valid UUID''] \<and>
   toggleTodo uuid_format (js ''42'') milk_world =
     (Failure (js ''Todo ID must be a valid UUID''), milk_world) \<and>
   deleteTodo uuid_format (js ''42'') milk_world =
     (Failure (js ''Todo ID must be a valid UUID''), milk_world) \<and>
   db_log milk_world = []"
proof -
  have a: "addTodoSchema (js ''   '') = Inl [js ''Todo text cannot be empty'']"
    by (simp add: schema_defs js_def)
  have e: "editTodoSchema uuid_format (js ''42'') (js ''   '') =
     Inl [js ''Todo ID must be a valid UUID'', js ''Todo text cannot be empty'']"
    by (simp add: schema_defs example_defs)
  have i: "todoIdOnlySchema uuid_format (js ''42'') = Inl [js ''Todo ID must be a valid UUID'']"
    by (simp add: schema_defs example_defs)
  have j: "join (js '', '') [js ''Todo ID must be a valid UUID'', js ''Todo text cannot be empty'']
     = js ''Todo ID must be a valid UUID, Todo text cannot be empty''"
    by (simp add: js_def)
  have l: "db_log milk_world = []" by (simp add: example_defs)
  from C6_validation_failure [of "js ''   ''" "[js ''Todo text cannot be empty'']" milk_world
      uuid_format "js ''42''"
      "[js ''Todo ID must be a valid UUID'', js ''Todo text cannot be empty'']"
      "[js ''Todo ID must be a valid UUID'']"] a e i j l
  show ?thesis by simp
qed

subsection \<open>Storage failures\<close>

lemma getData_store_error:
  "e \<in> set (store_errors w (snd (getData w))) \<Longrightarrow>
   fst (getData w) = Failure (js ''Unable to load todos. Please try again later.'') \<and>
   console (snd (getData w)) = console w @ [(js ''Error fetching todos:'', e)]"
  by (auto simp: getData_def getData_try_def db_defs store_errors_def split: option.splits)

lemma addTodo_store_error:
  "e \<in> set (store_errors w (snd (addTodo t w))) \<Longrightarrow>
   fst (addTodo t w) = Failure (js ''Unable to create todo. Please try again.'') \<and>
   console (snd (addTodo t w)) = console w @ [(js ''Error adding todo:'', e)]"
  by (auto simp: addTodo_def addTodo_try_def db_defs store_errors_def Let_def
      split: option.splits sum.splits if_splits)

lemma deleteTodo_store_error:
  "e \<in> set (store_errors w (snd (deleteTodo isUuid i w))) \<Longrightarrow>
   fst (deleteTodo isUuid i w) = Failure (js ''Unable to delete todo. Please try again.'') \<and>
   console (snd (deleteTodo isUuid i w)) = console w @ [(js ''Error deleting todo:'', e)]"
  by (auto simp: deleteTodo_def deleteTodo_try_def db_defs store_errors_def Let_def
      split: option.splits sum.splits if_splits)

lemma toggleTodo_store_error:
  "e \<in> set (store_errors w (snd (toggleTodo isUuid i w))) \<Longrightarrow>
   fst (toggleTodo isUuid i w) = Failure (js ''Unable to update todo. Please try again.'') \<and>
   console (snd (toggleTodo isUuid i w)) = console w @ [(js ''Error toggling todo:'', e)]"
  by (auto simp: toggleTodo_def toggleTodo_try_def db_defs store_errors_def Let_def
      split: option.splits sum.splits if_splits)

lemma editTodo_store_error:
  "e \<in> set (store_errors w (snd (editTodo isUuid i t w))) \<Longrightarrow>
   fst (editTodo isUuid i t w) = Failure (js ''Unable to update todo. Please try again.'') \<and>
   console (snd (editTodo isUuid i t w)) = console w @ [(js ''Error editing todo:'', e)]"
  by (auto simp: editTodo_def editTodo_try_def db_defs store_errors_def Let_def
      split: option.splits sum.splits if_splits prod.splits)

text \<open>
  C7.  Whenever the store throws an error \<open>e\<close> during \<open>getData\<close>, \<open>addTodo\<close>,
  \<open>editTodo\<close>, \<open>toggleTodo\<close> or \<open>deleteTodo\<close>, the action returns a failure whose message
  is the fixed string of that action, the same for every \<open>e\<close>; the error itself goes to
  the console only.
\<close>

theorem C7_storage_failure_generic:
  "(e \<in> set (store_errors w (snd (getData w))) \<longrightarrow>
      fst (getData w) = Failure (js ''Unable to load todos. Please try again later.'') \<and>
      console (snd (getData w)) = console w @ [(js ''Error fetching todos:'', e)]) \<and>
   (e \<in> set (store_errors w (snd (addTodo t w))) \<longrightarrow>
      fst (addTodo t w) = Failure (js ''Unable to create todo. Please try again.'') \<and>
      console (snd (addTodo t w)) = console w @ [(js ''Error adding todo:'', e)]) \<and>
   (e \<in> set (store_errors w (snd (editTodo isUuid i t w))) \<longrightarrow>
      fst (editTodo isUuid i t w) = Failure (js ''Unable to update todo. Please try again.'') \<and>
      console (snd (editTodo isUuid i t w)) = console w @ [(js ''Error editing todo:'', e)]) \<and>
   (e \<in> set (store_errors w (snd (toggleTodo isUuid i w))) \<longrightarrow>
      fst (toggleTodo isUuid i w) = Failure (js ''Unable to update todo. Please try again.'') \<and>
      console (snd (toggleTodo isUuid i w)) = console w @ [(js ''Error toggling todo:'', e)]) \<and>
   (e \<in> set (store_errors w (snd (deleteTodo isUuid i w))) \<longrightarrow>
      fst (deleteTodo isUuid i w) = Failure (js ''Unable to delete todo. Please try again.'') \<and>
      console (snd (deleteTodo isUuid i w)) = console w @ [(js ''Error deleting todo:'', e)])"
  by (intro conjI impI)
     (simp_all add: getData_store_error addTodo_store_error editTodo_store_error
        toggleTodo_store_error deleteTodo_store_error)

theorem C7_storage_failure_generic_witness:
  "js ''connection refused'' \<in> set (store_errors broken_world (snd (getData broken_world))) \<and>
   getData broken_world =
     (Failure (js ''Unable to load todos. Please try again later.''),
      broken_world\<lparr>db_log := [(SelectAll, Some (js ''connection refused''))],
                    console := [(js ''Error fetching todos:'', js ''connection refused'')]\<rparr>) \<and>
   js ''connection refused'' \<in>
     set (store_errors broken_world (snd (addTodo (js ''Buy eggs'') broken_world))) \<and>
   fst (addTodo (js ''Buy eggs'') broken_world) =
     Failure (js ''Unable to create todo. Please try again.'') \<and>
   js ''connection refused'' \<in>
     set (store_errors broken_world
            (snd (editTodo uuid_format milk_id (js ''Buy oat milk'') broken_world))) \<and>
   fst (editTodo uuid_format milk_id (js ''Buy oat milk'') broken_world) =
     Failure (js ''Unable to update todo. Please try again.'') \<and>
   js ''connection refused'' \<in>
     set (store_errors broken_world (snd (toggleTodo uuid_format milk_id broken_world))) \<and>
   fst (toggleTodo uuid_format milk_id broken_world) =
     Failure (js ''Unable to update todo. Please try again.'') \<and>
   js ''connection refused'' \<in>
     set (store_errors broken_world (snd (deleteTodo uuid_format milk_id broken_world))) \<and>
   fst (deleteTodo uuid_format milk_id broken_world) =
     Failure (js ''Unable to delete todo. Please try again.'')"
proof -
  have g: "js ''connection refused'' \<in>
      set (store_errors broken_world (snd (getData broken_world)))"
    by (simp add: store_errors_def action_defs db_defs example_defs)
  have g': "getData broken_world =
     (Failure (js ''Unable to load todos. Please try again later.''),
      broken_world\<lparr>db_log := [(SelectAll, Some (js ''connection refused''))],
                    console := [(js ''Error fetching todos:'', js ''connection refused'')]\<rparr>)"
    by (simp add: action_defs db_defs example_defs)
  have a: "js ''connection refused'' \<in>
      set (store_errors broken_world (snd (addTodo (js ''Buy eggs'') broken_world)))"
    by (simp add: store_errors_def action_defs schema_defs db_defs example_defs)
  have e: "js ''connection refused'' \<in>
      set (store_errors broken_world
             (snd (editTodo uuid_format milk_id (js ''Buy oat milk'') broken_world)))"
    by (simp add: store_errors_def action_defs schema_defs db_defs example_defs)
  have t: "js ''connection refused'' \<in>
      set (store_errors broken_world (snd (toggleTodo uuid_format milk_id broken_world)))"
    by (simp add: store_errors_def action_defs schema_defs db_defs example_defs)
  have d: "js ''connection refused'' \<in>
      set (store_errors broken_world (snd (deleteTodo uuid_format milk_id broken_world)))"
    by (simp add: store_errors_def action_defs schema_defs db_defs example_defs)
  from C7_storage_failure_generic [of "js ''connection refused''" broken_world
      "js ''Buy eggs''" uuid_format milk_id]
    C7_storage_failure_generic [of "js ''connection refused''" broken_world
      "js ''Buy oat milk''" uuid_format milk_id]
    g g' a e t d
  show ?thesis by simp
qed

subsection \<open>Identifiers that are not in the store\<close>

lemma select_absent:
  "Some u \<notin> set (map (\<lambda>r. uuid_in w (todo_id r)) (todo_table w)) \<Longrightarrow>
   filter (id_is w u) (todo_table w) = []"
  by (force simp: filter_empty_conv id_is_def image_iff)

lemma deleteTodo_absent:
  "isUuid i \<Longrightarrow> uuid_in w i = Some u \<Longrightarrow>
   Some u \<notin> set (map (\<lambda>r. uuid_in w (todo_id r)) (todo_table w)) \<Longrightarrow>
   db_next_fault w = None \<Longrightarrow>
   deleteTodo isUuid i w = (Failure (js ''Todo not found.''), db_logged (SelectWhereId i) None w)"
  by (simp add: deleteTodo_def deleteTodo_try_def todoIdOnlySchema_def todoIdSchema_def
      db_select_where_id_def select_absent)

lemma toggleTodo_absent:
  "isUuid i \<Longrightarrow> uuid_in w i = Some u \<Longrightarrow>
   Some u \<notin> set (map (\<lambda>r. uuid_in w (todo_id r)) (todo_table w)) \<Longrightarrow>
   db_next_fault w = None \<Longrightarrow>
   toggleTodo isUuid i w = (Failure (js ''Todo not found.''), db_logged (SelectWhereId i) None w)"
  by (simp add: toggleTodo_def toggleTodo_try_def todoIdOnlySchema_def todoIdSchema_def
      db_select_where_id_def select_absent)

lemma editTodo_absent:
  "isUuid i \<Longrightarrow> uuid_in w i = Some u \<Longrightarrow>
   Some u \<notin> set (map (\<lambda>r. uuid_in w (todo_id r)) (todo_table w)) \<Longrightarrow>
   db_next_fault w = None \<Longrightarrow> todoTextSchema t = Inr vt \<Longrightarrow>
   editTodo isUuid i t w = (Failure (js ''Todo not found.''), db_logged (SelectWhereId i) None w)"
  by (simp add: editTodo_def editTodo_try_def editTodoSchema_def todoIdSchema_def
      db_select_where_id_def select_absent)

text \<open>
  C3 (amended).  For a well-formed identifier that the store reads as a uuid no row of
  the table has (and, for \<open>editTodo\<close>, a text that passes validation), when the store
  answers the existence query, each of \<open>editTodo\<close>, \<open>toggleTodo\<close> and \<open>deleteTodo\<close>
  returns the failure \<open>Todo not found.\<close>, with its full stop, and the only thing that has
  happened to the store is that one \<open>SELECT\<close>: the table is unchanged.
\<close>

theorem C3_not_found:
  assumes "isUuid i" and "uuid_in w i = Some u"
    and "Some u \<notin> set (map (\<lambda>r. uuid_in w (todo_id r)) (todo_table w))"
    and "db_next_fault w = None" and "todoTextSchema t = Inr vt"
  shows "editTodo isUuid i t w =
           (Failure (js ''Todo not found.''), db_logged (SelectWhereId i) None w) \<and>
         toggleTodo isUuid i w =
           (Failure (js ''Todo not found.''), db_logged (SelectWhereId i) None w) \<and>
         deleteTodo isUuid i w =
           (Failure (js ''Todo not found.''), db_logged (SelectWhereId i) None w) \<and>
         todo_table (db_logged (SelectWhereId i) None w) = todo_table w"
  using assms
  by (simp add: editTodo_absent toggleTodo_absent deleteTodo_absent db_logged_def)

theorem C3_not_found_witness:
  "uuid_format eggs_id \<and> uuid_in milk_world eggs_id = Some eggs_id \<and>
   Some eggs_id \<notin> set (map (\<lambda>r. uuid_in milk_world (todo_id r)) (todo_table milk_world)) \<and>
   db_next_fault milk_world = None \<and>
   todoTextSchema (js ''Buy eggs'') = Inr (js ''Buy eggs'') \<and>
   editTodo uuid_format eggs_id (js ''Buy eggs'') milk_world =
     (Failure (js ''Todo not found.''), milk_world\<lparr>db_log := [(SelectWhereId eggs_id, None)]\<rparr>) \<and>
   toggleTodo uuid_format eggs_id milk_world =
     (Failure (js ''Todo not found.''), milk_world\<lparr>db_log := [(SelectWhereId eggs_id, None)]\<rparr>) \<and>
   deleteTodo uuid_format eggs_id milk_world =
     (Failure (js ''Todo not found.''), milk_world\<lparr>db_log := [(SelectWhereId eggs_id, None)]\<rparr>) \<and>
   todo_table (milk_world\<lparr>db_log := [(SelectWhereId eggs_id, None)]\<rparr>) = [milk]"
proof -
  have f: "uuid_format eggs_id" by (simp add: example_defs)
  have v: "uuid_in milk_world eggs_id = Some eggs_id" by (simp add: example_defs)
  have a: "Some eggs_id \<notin>
      set (map (\<lambda>r. uuid_in milk_world (todo_id r)) (todo_table milk_world))"
    by (simp add: example_defs)
  have n: "db_next_fault milk_world = None" by (simp add: db_next_fault_def example_defs)
  have t: "todoTextSchema (js ''Buy eggs'') = Inr (js ''Buy eggs'')"
    by (simp add: schema_defs js_def)
  have l: "db_logged (SelectWhereId eggs_id) None milk_world =
      milk_world\<lparr>db_log := [(SelectWhereId eggs_id, None)]\<rparr>"
    by (simp add: db_logged_def milk_world_def empty_world_def)
  have m: "todo_table milk_world = [milk]" by (simp add: milk_world_def)
  from C3_not_found [where isUuid = uuid_format and i = eggs_id and w = milk_world
      and u = eggs_id and t = "js ''Buy eggs''" and vt = "js ''Buy eggs''"] f v a n t l m
  show ?thesis by simp
qed

text \<open>
  The message is not the string \<open>Todo not found\<close>: for the identifier \<open>eggs_id\<close>, which
  is well formed and absent from the table of \<open>milk_world\<close>, none of the three actions
  returns it.  For the same identifier, \<open>editTodo\<close> with a blank text returns the
  validation message, and \<open>deleteTodo\<close> on a store that rejects the existence query
  returns its storage message.
\<close>

theorem C3_counterexample:
  "uuid_format eggs_id \<and> uuid_in milk_world eggs_id = Some eggs_id \<and>
   Some eggs_id \<notin> set (map (\<lambda>r. uuid_in milk_world (todo_id r)) (todo_table milk_world)) \<and>
   fst (editTodo uuid_format eggs_id (js ''Buy eggs'') milk_world) \<noteq> Failure (js ''Todo not found'') \<and>
   fst (toggleTodo uuid_format eggs_id milk_world) \<noteq> Failure (js ''Todo not found'') \<and>
   fst (deleteTodo uuid_format eggs_id milk_world) \<noteq> Failure (js ''Todo not found'') \<and>
   fst (deleteTodo uuid_format eggs_id milk_world) = Failure (js ''Todo not found.'') \<and>
   fst (editTodo uuid_format eggs_id (js '' '') milk_world) =
     Failure (js ''Todo text cannot be empty'') \<and>
   Some eggs_id \<notin> set (map (\<lambda>r. uuid_in broken_world (todo_id r)) (todo_table broken_world)) \<and>
   fst (deleteTodo uuid_format eggs_id broken_world) =
     Failure (js ''Unable to delete todo. Please try again.'')"
  by (simp add: action_defs schema_defs db_defs example_defs)

text \<open>
  Presence is a matter of the uuid, not of its spelling: the upper-case spelling of
  \<open>milk_id\<close> is another string, and \<open>toggleTodo\<close> finds and updates the row.
\<close>

lemma upper_case_spelling_finds_the_row:
  "milk_id_upper \<noteq> milk_id \<and> uuid_format milk_id_upper \<and>
   uuid_in milk_world milk_id_upper = Some milk_id \<and>
   fst (toggleTodo uuid_format milk_id_upper milk_world) = Success () \<and>
   todo_table (snd (toggleTodo uuid_format milk_id_upper milk_world)) =
     [milk\<lparr>todo_done := True\<rparr>]"
  by (simp add: action_defs schema_defs db_defs example_defs milk_id_upper_def)

subsection \<open>Creating an item\<close>


lemma addTodo_Success:
  "addTodo t w = (Success item, w') \<Longrightarrow>
   todo_id item = gen_random_uuid w (length (db_log w)) \<and>
   text_in w (trim t) = Some (todo_text item) \<and> \<not> todo_done item \<and>
   todo_id item \<notin> set (map todo_id (todo_table w)) \<and>
   todo_table w' = todo_table w @ [item]"
  by (auto simp: addTodo_def addTodo_try_def addTodoSchema_def todoTextSchema_eq
      db_insert_returning_def db_logged_def revalidatePath_def Let_def image_iff
      split: option.splits if_splits)




lemma createTodo_Success:
  "addTodo t w = (Success item, w1) \<Longrightarrow>
   createTodo t (c, w) =
     (c\<lparr>todos := todos c @ [item],
        setTodos_calls := setTodos_calls c @ [todos c @ [item]]\<rparr>, w1)"
  by (simp add: createTodo_def setTodos_def)

lemma createTodo_Failure:
  "addTodo t w = (Failure e, w1) \<Longrightarrow>
   createTodo t (c, w) = (c\<lparr>onError_calls := onError_calls c @ [e]\<rparr>, w1)"
  by (simp add: createTodo_def onError_def)

text \<open>
  C4.  \<open>createTodo\<close> of the controller calls \<open>addTodo\<close> and does nothing to the
  collection before the result is there.  On success the collection is set once, to the
  old collection followed by the returned item, which is the row the store inserted
  under the identifier the store generated; no error is reported.  On failure the
  message goes to \<open>onError\<close> and the collection is not set at all.
\<close>

theorem C4_createTodo:
  "(addTodo t w = (Success item, w1) \<longrightarrow>
      createTodo t (c, w) =
        (c\<lparr>todos := todos c @ [item],
           setTodos_calls := setTodos_calls c @ [todos c @ [item]]\<rparr>, w1) \<and>
      todo_id item = gen_random_uuid w (length (db_log w)) \<and>
      todo_table w1 = todo_table w @ [item]) \<and>
   (addTodo t w = (Failure e, w1) \<longrightarrow>
      createTodo t (c, w) = (c\<lparr>onError_calls := onError_calls c @ [e]\<rparr>, w1))"
  using addTodo_Success [of t w item w1]
  by (auto simp: createTodo_Success createTodo_Failure)

theorem C4_createTodo_witness:
  "fst (addTodo (js ''  Buy eggs  '') milk_world) = Success eggs \<and>
   fst (createTodo (js ''  Buy eggs  '') (milk_controller, milk_world)) =
     \<lparr>todos = [milk, eggs], setTodos_calls = [[milk, eggs]], onError_calls = []\<rparr> \<and>
   todo_id eggs = gen_random_uuid milk_world (length (db_log milk_world)) \<and>
   addTodo (js '''') milk_world = (Failure (js ''Todo text cannot be empty''), milk_world) \<and>
   createTodo (js '''') (milk_controller, milk_world) =
     (\<lparr>todos = [milk], setTodos_calls = [],
       onError_calls = [js ''Todo text cannot be empty'']\<rparr>, milk_world)"
proof -
  let ?w1 = "snd (addTodo (js ''  Buy eggs  '') milk_world)"
  have a1: "fst (addTodo (js ''  Buy eggs  '') milk_world) = Success eggs"
    by (simp add: action_defs schema_defs db_defs example_defs eggs_def Let_def)
  have a: "addTodo (js ''  Buy eggs  '') milk_world = (Success eggs, ?w1)"
    using a1 by (simp add: prod_eq_iff)
  have f: "addTodo (js '''') milk_world = (Failure (js ''Todo text cannot be empty''), milk_world)"
    by (simp add: action_defs schema_defs js_def)
  have c: "milk_controller\<lparr>todos := todos milk_controller @ [eggs],
        setTodos_calls := setTodos_calls milk_controller @ [todos milk_controller @ [eggs]]\<rparr> =
      \<lparr>todos = [milk, eggs], setTodos_calls = [[milk, eggs]], onError_calls = []\<rparr>"
    by (simp add: milk_controller_def)
  have c': "milk_controller
        \<lparr>onError_calls := onError_calls milk_controller @ [js ''Todo text cannot be empty'']\<rparr> =
      \<lparr>todos = [milk], setTodos_calls = [],
       onError_calls = [js ''Todo text cannot be empty'']\<rparr>"
    by (simp add: milk_controller_def)
  have s: "createTodo (js ''  Buy eggs  '') (milk_controller, milk_world) =
        (\<lparr>todos = [milk, eggs], setTodos_calls = [[milk, eggs]], onError_calls = []\<rparr>, ?w1) \<and>
      todo_id eggs = gen_random_uuid milk_world (length (db_log milk_world))"
    using C4_createTodo [where t = "js ''  Buy eggs  ''" and w = milk_world and item = eggs
      and ?w1.0 = ?w1 and c = milk_controller and e = "[]"] a
    unfolding c by blast
  have r: "createTodo (js '''') (milk_controller, milk_world) =
     (\<lparr>todos = [milk], setTodos_calls = [],
       onError_calls = [js ''Todo text cannot be empty'']\<rparr>, milk_world)"
    using C4_createTodo [where t = "js ''''" and w = milk_world and c = milk_controller
      and e = "js ''Todo text cannot be empty''" and ?w1.0 = milk_world and item = eggs] f
    unfolding c' by blast
  from s have "fst (createTodo (js ''  Buy eggs  '') (milk_controller, milk_world)) =
     \<lparr>todos = [milk, eggs], setTodos_calls = [[milk, eggs]], onError_calls = []\<rparr>"
    by simp
  with a1 s f r show ?thesis by blast
qed

subsection \<open>Toggling twice\<close>

lemma flip_done_twice:
  "map (\<lambda>r. if P (todo_id r) then r\<lparr>todo_done := \<not> todo_done r\<rparr> else r)
     (map (\<lambda>r. if P (todo_id r) then r\<lparr>todo_done := \<not> todo_done r\<rparr> else r) xs) = xs"
  by (induction xs) auto

lemma toggleTodo_Success:
  "toggleTodo isUuid i w = (Success u, w1) \<Longrightarrow>
   uuid_in w i \<noteq> None \<and> uuid_in w1 = uuid_in w \<and>
   filter (\<lambda>r. uuid_in w (todo_id r) = uuid_in w i) (todo_table w) \<noteq> [] \<and>
   todo_table w1 =
     map (\<lambda>r. if uuid_in w (todo_id r) = uuid_in w i
               then r\<lparr>todo_done := \<not> todo_done r\<rparr> else r) (todo_table w)"
  by (auto simp: toggleTodo_def toggleTodo_try_def todoIdOnlySchema_def todoIdSchema_def
      db_select_where_id_def db_update_set_done_not_def db_logged_def revalidatePath_def
      id_is_def [abs_def]
      split: option.splits if_splits)

lemma toggleIsTodoDone_Success:
  "toggleTodo isUuid i w = (Success u, w1) \<Longrightarrow>
   toggleIsTodoDone isUuid closure_todos i (c, w) =
     (setTodos (map (\<lambda>todo. if todo_id todo = i
                              then todo\<lparr>todo_done := \<not> todo_done todo\<rparr> else todo)) c, w1)"
  by (simp add: toggleIsTodoDone_def Let_def)

text \<open>
  C9.  Toggle pair: when \<open>toggleTodo\<close> succeeds twice in a row on the same identifier,
  the second starting from the world the first one left, the store reads the identifier
  as a uuid and the table has a row with that uuid, the first call negates the \<open>done\<close> of that row (SQL \<open>NOT\<close>) and the second
  restores the table.  The controller's \<open>toggleIsTodoDone\<close> over the same two calls,
  through the functions of any renders, negates the \<open>done\<close> of the item in its
  collection and then restores the collection.
\<close>

theorem C9_toggle_pair:
  assumes "toggleTodo isUuid i w = (Success (), w1)"
    and "toggleTodo isUuid i w1 = (Success (), w2)"
  shows "uuid_in w i \<noteq> None \<and>
         filter (\<lambda>r. uuid_in w (todo_id r) = uuid_in w i) (todo_table w) \<noteq> [] \<and>
         todo_table w1 =
           map (\<lambda>r. if uuid_in w (todo_id r) = uuid_in w i
                     then r\<lparr>todo_done := \<not> todo_done r\<rparr> else r)
             (todo_table w) \<and>
         todo_table w2 = todo_table w \<and>
         todos (fst (toggleIsTodoDone isUuid r1 i (c, w))) =
           map (\<lambda>r. if todo_id r = i then r\<lparr>todo_done := \<not> todo_done r\<rparr> else r) (todos c) \<and>
         todos (fst (toggleIsTodoDone isUuid r2 i (toggleIsTodoDone isUuid r1 i (c, w)))) =
           todos c \<and>
         snd (toggleIsTodoDone isUuid r2 i (toggleIsTodoDone isUuid r1 i (c, w))) = w2"
proof -
  from toggleTodo_Success [OF assms(1)]
  have readable: "uuid_in w i \<noteq> None"
    and present: "filter (\<lambda>r. uuid_in w (todo_id r) = uuid_in w i) (todo_table w) \<noteq> []"
    and same: "uuid_in w1 = uuid_in w"
    and flipped: "todo_table w1 =
      map (\<lambda>r. if uuid_in w (todo_id r) = uuid_in w i
                then r\<lparr>todo_done := \<not> todo_done r\<rparr> else r) (todo_table w)"
    by simp_all
  from toggleTodo_Success [OF assms(2)]
  have "todo_table w2 =
      map (\<lambda>r. if uuid_in w (todo_id r) = uuid_in w i
                then r\<lparr>todo_done := \<not> todo_done r\<rparr> else r) (todo_table w1)"
    by (simp add: same)
  then have restored: "todo_table w2 = todo_table w"
    unfolding flipped
    by (simp only: flip_done_twice [where P = "\<lambda>x. uuid_in w x = uuid_in w i"])
  have one: "toggleIsTodoDone isUuid r1 i (c, w) =
      (setTodos (map (\<lambda>todo. if todo_id todo = i
                               then todo\<lparr>todo_done := \<not> todo_done todo\<rparr> else todo)) c, w1)"
    by (rule toggleIsTodoDone_Success [OF assms(1)])
  have two: "toggleIsTodoDone isUuid r2 i
       (setTodos (map (\<lambda>todo. if todo_id todo = i
                               then todo\<lparr>todo_done := \<not> todo_done todo\<rparr> else todo)) c, w1) =
      (setTodos (map (\<lambda>todo. if todo_id todo = i
                               then todo\<lparr>todo_done := \<not> todo_done todo\<rparr> else todo))
         (setTodos (map (\<lambda>todo. if todo_id todo = i
                               then todo\<lparr>todo_done := \<not> todo_done todo\<rparr> else todo)) c), w2)"
    by (rule toggleIsTodoDone_Success [OF assms(2)])
  have twice: "todos (setTodos (map (\<lambda>todo. if todo_id todo = i
                               then todo\<lparr>todo_done := \<not> todo_done todo\<rparr> else todo))
         (setTodos (map (\<lambda>todo. if todo_id todo = i
                               then todo\<lparr>todo_done := \<not> todo_done todo\<rparr> else todo)) c)) =
      todos c"
    using flip_done_twice [where P = "\<lambda>x. x = i" and xs = "todos c"]
    by (simp add: setTodos_def del: map_map)
  show ?thesis
    unfolding one two fst_conv snd_conv twice
    using readable present flipped restored by (simp add: setTodos_def)
qed

theorem C9_toggle_pair_witness:
  "fst (toggleTodo uuid_format milk_id milk_world) = Success () \<and>
   fst (toggleTodo uuid_format milk_id (snd (toggleTodo uuid_format milk_id milk_world))) =
     Success () \<and>
   todo_table (snd (toggleTodo uuid_format milk_id milk_world)) = [milk\<lparr>todo_done := True\<rparr>] \<and>
   todo_table (snd (toggleTodo uuid_format milk_id
                      (snd (toggleTodo uuid_format milk_id milk_world)))) = [milk] \<and>
   todos (fst (toggleIsTodoDone uuid_format [milk] milk_id (milk_controller, milk_world))) =
     [milk\<lparr>todo_done := True\<rparr>] \<and>
   todos (fst (toggleIsTodoDone uuid_format [milk\<lparr>todo_done := True\<rparr>] milk_id
                 (toggleIsTodoDone uuid_format [milk] milk_id (milk_controller, milk_world)))) =
     [milk]"
proof -
  let ?w1 = "snd (toggleTodo uuid_format milk_id milk_world)"
  let ?w2 = "snd (toggleTodo uuid_format milk_id ?w1)"
  have a1: "fst (toggleTodo uuid_format milk_id milk_world) = Success ()"
    by (simp add: action_defs schema_defs db_defs example_defs)
  have b1: "fst (toggleTodo uuid_format milk_id ?w1) = Success ()"
    by (simp add: action_defs schema_defs db_defs example_defs)
  have a: "toggleTodo uuid_format milk_id milk_world = (Success (), ?w1)"
    using a1 by (simp add: prod_eq_iff)
  have b: "toggleTodo uuid_format milk_id ?w1 = (Success (), ?w2)"
    using b1 by (simp add: prod_eq_iff)
  have t: "todo_table milk_world = [milk]" "todos milk_controller = [milk]"
    "todo_id milk = milk_id" "\<not> todo_done milk"
    "uuid_in milk_world milk_id = Some milk_id"
    by (simp_all add: example_defs)
  from C9_toggle_pair [OF a b, of "[milk]" milk_controller "[milk\<lparr>todo_done := True\<rparr>]"]
    a1 b1 t
  show ?thesis by simp
qed

subsection \<open>The guard of the AddTodo component\<close>

lemmas AddTodo_defs = AddTodo_init_def handleInput_def handleAdd_def handleAdd_settled_def
  handleKeyPress_def add_button_disabled_def AddTodo_run_def rerendered_def

lemma AddTodo_run_snoc:
  "AddTodo_run (es @ [ev]) = AddTodo_step (AddTodo_run es) ev"
  by (simp add: AddTodo_run_def)

lemma AddTodo_step_calls:
  assumes "\<forall>v\<in>set (createTodo_calls (fst s)). trim v \<noteq> []"
  shows "\<forall>v\<in>set (createTodo_calls (fst (AddTodo_step s ev))). trim v \<noteq> []"
  using assms
  by (cases s; cases ev)
     (auto simp: handleInput_def handleAdd_def handleAdd_settled_def handleKeyPress_def Let_def)

lemma AddTodo_run_calls:
  "\<forall>v\<in>set (createTodo_calls (fst (AddTodo_run es))). trim v \<noteq> []"
proof (induction es rule: rev_induct)
  case Nil
  show ?case by (simp add: AddTodo_run_def AddTodo_init_def)
next
  case (snoc ev es)
  then show ?case unfolding AddTodo_run_snoc by (rule AddTodo_step_calls)
qed

lemma rerendered_snoc: "rerendered (es @ [ev]) = rerendered es @ [Rerender, ev]"
  by (simp add: rerendered_def)

lemma AddTodo_rerendered_step:
  assumes "in_flight a \<le> 1" and "0 < in_flight a \<longrightarrow> isLoading a"
  shows "in_flight (fst (AddTodo_step (AddTodo_step (a, r) Rerender) ev)) \<le> 1 \<and>
         (0 < in_flight (fst (AddTodo_step (AddTodo_step (a, r) Rerender) ev)) \<longrightarrow>
            isLoading (fst (AddTodo_step (AddTodo_step (a, r) Rerender) ev)))"
  using assms
  by (cases ev)
     (auto simp: handleInput_def handleAdd_def handleAdd_settled_def handleKeyPress_def Let_def)

lemma AddTodo_rerendered_invariant:
  "in_flight (fst (AddTodo_run (rerendered es))) \<le> 1 \<and>
   (0 < in_flight (fst (AddTodo_run (rerendered es))) \<longrightarrow>
      isLoading (fst (AddTodo_run (rerendered es))))"
proof (induction es rule: rev_induct)
  case Nil
  show ?case by (simp add: AddTodo_run_def AddTodo_init_def rerendered_def)
next
  case (snoc ev es)
  obtain a r where s: "AddTodo_run (rerendered es) = (a, r)"
    by (cases "AddTodo_run (rerendered es)")
  have "AddTodo_run (rerendered (es @ [ev])) =
      AddTodo_step (AddTodo_step (a, r) Rerender) ev"
    by (simp add: rerendered_snoc AddTodo_run_def s [unfolded AddTodo_run_def])
  with snoc s AddTodo_rerendered_step [of a r ev] show ?case by simp
qed

text \<open>
  C10 (amended).  Whatever happens to the form, in any order and from any render,
  every argument \<open>createTodo\<close> was invoked with has a non-empty trimmed value.  When
  React renders before each event, at most one invocation is in flight.  In a render
  whose \<open>isLoading\<close> is true, and in a render whose input trims to the empty string,
  \<open>handleAdd\<close> and \<open>handleKeyPress\<close> return without invoking \<open>createTodo\<close> and the Add
  button is disabled.
\<close>

theorem C10_AddTodo_guard:
  "(\<forall>v\<in>set (createTodo_calls (fst (AddTodo_run es))). trim v \<noteq> []) \<and>
   in_flight (fst (AddTodo_run (rerendered es))) \<le> 1 \<and>
   (isLoading r \<longrightarrow>
      handleAdd r a = a \<and> handleKeyPress k r a = a \<and> add_button_disabled r) \<and>
   (trim (input r) = [] \<longrightarrow>
      handleAdd r a = a \<and> handleKeyPress k r a = a \<and> add_button_disabled r)"
  using AddTodo_run_calls [of es] AddTodo_rerendered_invariant [of es]
  by (simp add: handleAdd_def handleKeyPress_def add_button_disabled_def)

theorem C10_AddTodo_guard_witness:
  "fst (AddTodo_run example_run) =
     \<lparr>input = js ''Buy milk'', isLoading = True, createTodo_calls = [js ''Buy milk''],
      in_flight = 1\<rparr> \<and>
   trim (js ''Buy milk'') \<noteq> [] \<and>
   isLoading (fst (AddTodo_run example_run)) \<and>
   handleAdd (fst (AddTodo_run example_run)) (fst (AddTodo_run example_run)) =
     fst (AddTodo_run example_run) \<and>
   add_button_disabled (fst (AddTodo_run example_run)) \<and>
   trim (input blank_form) = [] \<and>
   handleAdd blank_form blank_form = blank_form \<and>
   handleKeyPress (js ''Enter'') blank_form blank_form = blank_form \<and>
   add_button_disabled blank_form"
proof -
  have r: "fst (AddTodo_run example_run) =
      \<lparr>input = js ''Buy milk'', isLoading = True, createTodo_calls = [js ''Buy milk''],
       in_flight = 1\<rparr>"
    by (simp add: example_run_def example_events_def AddTodo_defs trim_def isWhiteSpace_def js_def)
  have l: "isLoading (fst (AddTodo_run example_run))" by (simp add: r)
  have t: "trim (js ''Buy milk'') \<noteq> []"
    by (simp add: trim_def isWhiteSpace_def js_def)
  have b: "trim (input blank_form) = []"
    by (simp add: blank_form_def AddTodo_init_def trim_def isWhiteSpace_def js_def)
  have c: "createTodo_calls (fst (AddTodo_run example_run)) = [js ''Buy milk'']"
    "in_flight (fst (AddTodo_run (rerendered example_events))) = 1"
    by (simp_all add: r example_run_def [symmetric])
  from C10_AddTodo_guard [where r = "fst (AddTodo_run example_run)"
      and a = "fst (AddTodo_run example_run)" and k = "js ''Enter''" and es = example_run]
    C10_AddTodo_guard [where r = blank_form and a = blank_form and k = "js ''Enter''"
      and es = example_events]
    r l t b c
  show ?thesis by blast
qed

text \<open>
  Two clicks that reach the same render both pass the guard, since that render's
  \<open>isLoading\<close> is false: the second invokes \<open>createTodo\<close> while the first invocation is
  in flight.
\<close>

theorem C10_counterexample:
  "fst (AddTodo_run double_click) =
     \<lparr>input = js ''Buy milk'', isLoading = True,
      createTodo_calls = [js ''Buy milk'', js ''Buy milk''], in_flight = 2\<rparr> \<and>
   in_flight (fst (AddTodo_run (butlast double_click))) = 1 \<and>
   \<not> in_flight (fst (AddTodo_run double_click)) \<le> 1"
  by (simp add: double_click_def AddTodo_defs trim_def isWhiteSpace_def js_def)

subsection \<open>Error display\<close>

text \<open>
  A report that finds no timer pending is displayed for the whole delay and cleared when
  the delay has passed.
\<close>

lemma single_report_shown:
  "timers u = [] \<Longrightarrow> d < dismissAfter \<Longrightarrow>
   error (elapse d (showError dismissAfter message u)) = Some message"
  by (simp add: elapse_def showError_def Let_def)

lemma single_report_cleared:
  "error (elapse dismissAfter (showError dismissAfter message u)) = None"
  by (simp add: elapse_def showError_def Let_def)

text \<open>
  C8.  \<open>showError\<close> starts a timer and never cancels the one already pending.  With a
  delay of 5000 ms, a first report at 0 ms and a second at 3000 ms: the second is on
  display up to 4999 ms, and at 5000 ms the timer of the first report clears it, 2000 ms
  after it was reported, while its own timer is still pending for 8000 ms.
\<close>

theorem C8_later_report_cleared_early:
  "clock two_reports = 3000 \<and> error two_reports = Some (js ''second'') \<and>
   timers two_reports = [5000, 8000] \<and>
   error (elapse 1999 two_reports) = Some (js ''second'') \<and>
   clock (elapse 2000 two_reports) = 5000 \<and>
   error (elapse 2000 two_reports) = None \<and>
   timers (elapse 2000 two_reports) = [8000]"
  by (simp add: two_reports_def useError_init_def showError_def elapse_def Let_def)

end
